theory Spec2Isabelle
  imports Main "HOL-Library.Word" "HOL-Library.AList"
begin

section \<open>The connection core of the AMQP client (connection.go)\<close>

text \<open>
  A shallow embedding of \<^verbatim>\<open>connection.go\<close>. The connection object is a record
  that is passed through every operation and returned updated. Everything the
  code does to the outside (frames written, values sent on Go channels, channels
  closed, tasks started) is appended to a trace, in the order in which the code
  performs it. An operation on a Go channel is recorded as performed: a send
  that would wait for ever for a receiver, and the panic of a second close of
  the same channel, are outside the model.
\<close>

subsection \<open>Integers\<close>

type_synonym u16 = "16 word"
type_synonym u32 = "32 word"

text \<open>
  Go's \<^verbatim>\<open>int\<close> is modelled as \<open>int\<close>: \<^verbatim>\<open>pick\<close> only compares its
  arguments and returns one of them. A \<^verbatim>\<open>time.Duration\<close> is a count of
  nanoseconds; Go's integer division truncates towards zero.
\<close>

type_synonym duration = int

definition Second :: duration where
  "Second = 1000000000"

definition quot :: "int \<Rightarrow> int \<Rightarrow> int" where
  "quot a b = sgn a * sgn b * (\<bar>a\<bar> div \<bar>b\<bar>)"

text \<open>\<^verbatim>\<open>func pick(client, server int) int\<close>, lines 495 to 512.\<close>

definition pick :: "int \<Rightarrow> int \<Rightarrow> int" where
  "pick client server =
     (if client = 0 \<or> server = 0 then
        (if client > server then client else server)
      else
        (if client > server then server else client))"

subsection \<open>Protocol data\<close>

text \<open>
  The method records, the frames and \<^verbatim>\<open>Table\<close> are declared outside
  \<^verbatim>\<open>connection.go\<close>. The model keeps the method types this file names and
  the fields it reads or writes; every other method type is \<open>otherMethod\<close> with
  its class and method id. The arguments of \<open>channelClose\<close> are the reply code and
  text of the wire method; this file never reads them.
\<close>

datatype field = FBool bool | FInt int | FString string | FTable "(string \<times> field) list"

type_synonym Table = "(string \<times> field) list"

datatype message =
    connectionStart "8 word" "8 word" Table string
  | connectionStartOk string string
  | connectionTune u16 u32 u16
  | connectionTuneOk u16 u32 u16
  | connectionOpen string
  | connectionOpenOk
  | connectionClose u16 string
  | connectionCloseOk
  | channelClose u16 string
  | channelCloseOk
  | otherMethod nat nat

text \<open>\<^verbatim>\<open>reflect.TypeOf\<close> of a method record: its Go type.\<close>

datatype mtype =
    TconnectionStart | TconnectionStartOk | TconnectionTune | TconnectionTuneOk
  | TconnectionOpen | TconnectionOpenOk | TconnectionClose | TconnectionCloseOk
  | TchannelClose | TchannelCloseOk | TotherMethod nat nat

fun TypeOf :: "message \<Rightarrow> mtype" where
  "TypeOf (connectionStart _ _ _ _) = TconnectionStart"
| "TypeOf (connectionStartOk _ _) = TconnectionStartOk"
| "TypeOf (connectionTune _ _ _) = TconnectionTune"
| "TypeOf (connectionTuneOk _ _ _) = TconnectionTuneOk"
| "TypeOf (connectionOpen _) = TconnectionOpen"
| "TypeOf connectionOpenOk = TconnectionOpenOk"
| "TypeOf (connectionClose _ _) = TconnectionClose"
| "TypeOf connectionCloseOk = TconnectionCloseOk"
| "TypeOf (channelClose _ _) = TchannelClose"
| "TypeOf channelCloseOk = TchannelCloseOk"
| "TypeOf (otherMethod c m) = TotherMethod c m"

text \<open>
  A frame is a method, content header, content body or heartbeat frame on a
  channel, or the protocol header, which is only ever written.
\<close>

datatype frame =
    methodFrame u16 message
  | headerFrame u16
  | bodyFrame u16
  | heartbeatFrame u16
  | protocolHeader

text \<open>
  Modelled from the spec: the accessor \<^verbatim>\<open>frame.channel()\<close> is declared outside
  \<^verbatim>\<open>connection.go\<close>; a frame carries a channel id. The protocol header is never
  read from the transport, so \<open>demux\<close> never sees it; its id is taken as 0.
\<close>

fun channel :: "frame \<Rightarrow> u16" where
  "channel (methodFrame n _) = n"
| "channel (headerFrame n) = n"
| "channel (bodyFrame n) = n"
| "channel (heartbeatFrame n) = n"
| "channel protocolHeader = 0"

datatype error = Error (Code: int) (Reason: string)

text \<open>
  Modelled from the spec: \<^verbatim>\<open>newError\<close> is declared outside \<^verbatim>\<open>connection.go\<close>;
  it builds the error from the server's reply code and text.
\<close>

definition newError :: "u16 \<Rightarrow> string \<Rightarrow> error" where
  "newError code text = Error (uint code) text"

text \<open>
  A value of Go's \<^verbatim>\<open>error\<close> interface as this file returns it: one of the
  package's \<^verbatim>\<open>*Error\<close> values, or the error that \<^verbatim>\<open>WriteFrame\<close> returned, of
  which only the text is observed.
\<close>

datatype goerror = Amqp error | WriteError string

text \<open>
  The constants and sentinel errors that this file uses and that are declared
  elsewhere in the package. They are a parameter of every function that needs
  one of them.
\<close>

record constants =
  FrameError :: int
  replySuccess :: u16
  ErrClosed :: error
  ErrSASL :: error
  ErrCredentials :: error
  ErrVhost :: error
  ErrUnexpectedFrame :: error
  ErrCommandInvalid :: error

datatype Authentication = Authentication (Mechanism: string) (Response: string)

record Config =
  SASL :: "Authentication list"
  Vhost :: string
  Channels :: int
  FrameSize :: int
  Heartbeat :: duration

text \<open>
  \<^verbatim>\<open>Channel\<close> is declared outside this file. The registry holds the object
  that \<^verbatim>\<open>newChannel(me, id)\<close> built; what a channel does when it receives a frame,
  is opened or is shut down is recorded as an event.
\<close>

datatype Channel = newChannel u16

subsection \<open>The connection\<close>

text \<open>A subscriber's channel (\<^verbatim>\<open>chan *Error\<close>) is known by its identity.\<close>

type_synonym errchan = nat

datatype event =
    EvWrite frame \<comment> \<open>\<^verbatim>\<open>WriteFrame\<close> wrote the frame\<close>
  | EvWriteFailed frame string \<comment> \<open>\<^verbatim>\<open>WriteFrame\<close> returned an error\<close>
  | EvNotify errchan error \<comment> \<open>\<^verbatim>\<open>c <- err\<close> on a subscriber's channel\<close>
  | EvNotifyClosed errchan \<comment> \<open>\<^verbatim>\<open>close(c)\<close> on a subscriber's channel\<close>
  | EvChannelShutdown u16 "error option" \<comment> \<open>\<^verbatim>\<open>c.shutdown(err)\<close> on a channel\<close>
  | EvChannelRecv u16 frame \<comment> \<open>\<^verbatim>\<open>channel.recv(channel, f)\<close>\<close>
  | EvChannelOpen u16 \<comment> \<open>\<^verbatim>\<open>channel.open()\<close>\<close>
  | EvErrors error \<comment> \<open>\<^verbatim>\<open>me.errors <- err\<close>\<close>
  | EvSendsClosed \<comment> \<open>\<^verbatim>\<open>close(me.sends)\<close>\<close>
  | EvConnClose \<comment> \<open>\<^verbatim>\<open>me.conn.Close()\<close>\<close>
  | EvReader \<comment> \<open>\<^verbatim>\<open>go me.reader()\<close>\<close>
  | EvHeartbeater duration \<comment> \<open>\<^verbatim>\<open>go me.heartbeater(interval)\<close>\<close>

text \<open>
  Where the reader task stands: not started, in its loop, blocked in the
  \<^verbatim>\<open>select\<close> of a \<^verbatim>\<open>call\<close> that it made itself (through \<^verbatim>\<open>closeWith\<close>), or
  returned. A reader in its loop is blocked at \<^verbatim>\<open>me.rpc <- m\<close> exactly while
  the field \<open>rpc\<close> below holds a message.
\<close>

datatype rstate = NotStarted | Running | AtSelect | Exited

text \<open>
  The fields of \<^verbatim>\<open>Connection\<close>, lines 37 to 60. \<open>destructor\<close> is the
  \<^verbatim>\<open>sync.Once\<close>: true once its function has been run. \<open>rpc\<close> is the unbuffered
  channel: the message a blocked sender offers, if any. \<open>errors\<close> is the channel
  of capacity 1: its buffer. \<open>sends\<close> is false once the field is nil. The mutex
  is not modelled: the operations are run one after the other.

  Three fields stand for what surrounds the connection: \<open>wfault\<close> is the error
  text that \<^verbatim>\<open>WriteFrame\<close> returns on the transport (\<open>None\<close>: it writes), \<open>rstate\<close>
  is the reader task's position, and \<open>trace\<close> lists the effects so far.
\<close>

record Connection =
  destructor :: bool
  rpc :: "message option"
  sends :: bool
  sequence :: u32
  channels :: "(u16 \<times> Channel) list"
  closes :: "errchan list"
  errors :: "error option"
  Config :: Config
  Major :: int
  Minor :: int
  Properties :: Table
  wfault :: "string option"
  rstate :: rstate
  trace :: "event list"

definition emit :: "event list \<Rightarrow> Connection \<Rightarrow> Connection" where
  "emit es c = c\<lparr>trace := trace c @ es\<rparr>"

text \<open>
  A call that waits on Go channels either returns or stays blocked: \<open>Blocked\<close>
  means that nothing in the model will ever wake the task.
\<close>

datatype 'a outcome = Returned 'a | Blocked

subsection \<open>Channel ids and subscribers\<close>

text \<open>
  \<^verbatim>\<open>nextChannelId\<close>, lines 107 to 109: \<^verbatim>\<open>atomic.AddUint32\<close> returns the new
  value of the 32-bit counter, which \<^verbatim>\<open>uint16(...)\<close> truncates.
\<close>

definition nextChannelId :: "Connection \<Rightarrow> u16 \<times> Connection" where
  "nextChannelId c =
     (let s = sequence c + 1 in (ucast s, c\<lparr>sequence := s\<rparr>))"

text \<open>\<^verbatim>\<open>NotifyClose\<close>, lines 115 to 120.\<close>

definition NotifyClose :: "errchan \<Rightarrow> Connection \<Rightarrow> errchan \<times> Connection" where
  "NotifyClose ch c = (ch, c\<lparr>closes := closes c @ [ch]\<rparr>)"

text \<open>
  \<^verbatim>\<open>Channel\<close>, lines 353 to 358. \<^verbatim>\<open>channel.open()\<close> is outside this file: its
  result is the parameter \<open>opened\<close>.
\<close>

definition Channel :: "goerror option \<Rightarrow> Connection \<Rightarrow> (Channel \<times> goerror option) \<times> Connection" where
  "Channel opened c =
     (let (n, c1) = nextChannelId c;
          ch = newChannel n;
          c2 = c1\<lparr>channels := AList.update n ch (channels c1)\<rparr>
      in ((ch, opened), emit [EvChannelOpen n] c2))"

subsection \<open>Shutdown\<close>

text \<open>
  The function given to \<^verbatim>\<open>me.destructor.Do\<close>, lines 184 to 206, statement by
  statement. The registry is an association list; the loop over it visits the
  entries in the order of the list (Go leaves the order open).
\<close>

definition notify_subscribers :: "error option \<Rightarrow> Connection \<Rightarrow> Connection" where
  "notify_subscribers err c =
     (case err of
        None \<Rightarrow> c
      | Some e \<Rightarrow> emit (map (\<lambda>ch. EvNotify ch e) (closes c)) c)"

fun shutdown_channels :: "error option \<Rightarrow> (u16 \<times> Channel) list \<Rightarrow> Connection \<Rightarrow> Connection" where
  "shutdown_channels err [] c = c"
| "shutdown_channels err ((n, ch) # rest) c =
     shutdown_channels err rest
       (emit [EvChannelShutdown n err] (c\<lparr>channels := AList.delete n (channels c)\<rparr>))"

definition publish_error :: "error option \<Rightarrow> Connection \<Rightarrow> Connection" where
  "publish_error err c =
     (case err of
        None \<Rightarrow> c
      | Some e \<Rightarrow> emit [EvErrors e] (c\<lparr>errors := Some e\<rparr>))"

definition close_sends :: "Connection \<Rightarrow> Connection" where
  "close_sends c = emit [EvSendsClosed] (c\<lparr>sends := False\<rparr>)"

definition close_conn :: "Connection \<Rightarrow> Connection" where
  "close_conn c = emit [EvConnClose] c"

definition close_subscribers :: "Connection \<Rightarrow> Connection" where
  "close_subscribers c = emit (map EvNotifyClosed (closes c)) c"

definition shutdown_body :: "error option \<Rightarrow> Connection \<Rightarrow> Connection" where
  "shutdown_body err c =
     close_subscribers (close_conn (close_sends (publish_error err
       (shutdown_channels err (channels c) (notify_subscribers err c)))))"

text \<open>\<^verbatim>\<open>shutdown\<close>, lines 182 to 208: \<^verbatim>\<open>sync.Once\<close> runs the function the first time only.\<close>

definition shutdown :: "error option \<Rightarrow> Connection \<Rightarrow> Connection" where
  "shutdown err c =
     (if destructor c then c else shutdown_body err (c\<lparr>destructor := True\<rparr>))"

subsection \<open>Writing a frame\<close>

text \<open>
  \<^verbatim>\<open>send\<close>, lines 157 to 180. On success the code offers a timestamp on
  \<^verbatim>\<open>me.sends\<close> without blocking; that only feeds the heartbeater's timer, which
  the model does not hold, so the successful branch records the write alone.
\<close>

definition send :: "constants \<Rightarrow> frame \<Rightarrow> Connection \<Rightarrow> goerror option \<times> Connection" where
  "send K f c =
     (case wfault c of
        Some r \<Rightarrow>
          (Some (WriteError r),
           shutdown (Some (Error (FrameError K) r)) (emit [EvWriteFailed f r] c))
      | None \<Rightarrow> (None, emit [EvWrite f] c))"

subsection \<open>The RPC rendezvous\<close>

text \<open>What the \<^verbatim>\<open>select\<close> of \<^verbatim>\<open>call\<close> received, lines 369 to 373.\<close>

datatype received = GotError error | GotMessage message

text \<open>
  What the \<^verbatim>\<open>select\<close> can take at once: a buffered error, or the message of a
  sender blocked on \<^verbatim>\<open>me.rpc\<close>. When both are ready Go takes either one; the
  model takes the error.
\<close>

definition poll :: "Connection \<Rightarrow> (received \<times> Connection) option" where
  "poll c =
     (case errors c of
        Some e \<Rightarrow> Some (GotError e, c\<lparr>errors := None\<rparr>)
      | None \<Rightarrow>
          (case rpc c of
             Some m \<Rightarrow> Some (GotMessage m, c\<lparr>rpc := None\<rparr>)
           | None \<Rightarrow> None))"

text \<open>
  The loop over \<^verbatim>\<open>res\<close>, lines 375 to 383: \<open>res\<close> holds the current contents
  of the records the caller's pointers refer to; the first one of the message's
  type is overwritten with the message.
\<close>

fun try_slots :: "message \<Rightarrow> message list \<Rightarrow> message list option" where
  "try_slots msg [] = None"
| "try_slots msg (try # res) =
     (if TypeOf msg = TypeOf try then Some (msg # res)
      else map_option ((#) try) (try_slots msg res))"

text \<open>The branch \<^verbatim>\<open>case msg := <-me.rpc\<close> of \<^verbatim>\<open>call\<close>, lines 373 to 384.\<close>

definition call_reply :: "constants \<Rightarrow> message \<Rightarrow> message list \<Rightarrow> goerror option \<times> message list" where
  "call_reply K msg res =
     (case try_slots msg res of
        Some res' \<Rightarrow> (None, res')
      | None \<Rightarrow> (Some (Amqp (ErrCommandInvalid K)), res))"

definition call_received :: "constants \<Rightarrow> received \<Rightarrow> message list \<Rightarrow> goerror option \<times> message list" where
  "call_received K r res =
     (case r of
        GotError e \<Rightarrow> (Some (Amqp e), res)
      | GotMessage msg \<Rightarrow> call_reply K msg res)"

text \<open>The first part of \<^verbatim>\<open>call\<close>, lines 363 to 367.\<close>

definition call_send :: "constants \<Rightarrow> message option \<Rightarrow> Connection \<Rightarrow> goerror option \<times> Connection" where
  "call_send K req c =
     (case req of
        None \<Rightarrow> (None, c)
      | Some m \<Rightarrow> send K (methodFrame 0 m) c)"

text \<open>
  \<^verbatim>\<open>call\<close>, lines 360 to 388, when the reader task itself makes the call
  (through \<^verbatim>\<open>closeWith\<close> from a dispatch function). The reader is the only
  sender on \<^verbatim>\<open>me.rpc\<close>, so while it waits here nothing but a buffered error can
  arrive: with none, the reader stays in the \<^verbatim>\<open>select\<close>.
\<close>

definition call_reader ::
  "constants \<Rightarrow> message option \<Rightarrow> message list \<Rightarrow> Connection
     \<Rightarrow> goerror option outcome \<times> message list \<times> Connection" where
  "call_reader K req res c =
     (case call_send K req c of
        (Some err, c1) \<Rightarrow> (Returned (Some err), res, c1)
      | (None, c1) \<Rightarrow>
          (case poll c1 of
             None \<Rightarrow> (Blocked, res, c1\<lparr>rstate := AtSelect\<rparr>)
           | Some (r, c2) \<Rightarrow>
               (let (err, res') = call_received K r res in (Returned err, res', c2))))"

text \<open>
  \<^verbatim>\<open>closeWith\<close>, lines 146 to 155; only the dispatch functions call it, on the
  reader task. The deferred \<^verbatim>\<open>shutdown\<close> runs when \<^verbatim>\<open>call\<close> returns.
\<close>

definition closeWith :: "constants \<Rightarrow> error \<Rightarrow> Connection \<Rightarrow> goerror option outcome \<times> Connection" where
  "closeWith K err c =
     (case call_reader K (Some (connectionClose (word_of_int (Code err)) (Reason err)))
             [connectionCloseOk] c of
        (Blocked, res, c1) \<Rightarrow> (Blocked, c1)
      | (Returned r, res, c1) \<Rightarrow> (Returned r, shutdown (Some err) c1))"

subsection \<open>Dispatch\<close>

text \<open>
  \<^verbatim>\<open>dispatch0\<close>, lines 220 to 241. \<^verbatim>\<open>me.rpc <- m\<close> leaves the reader blocked
  with \<open>m\<close> on offer until a \<^verbatim>\<open>call\<close> receives it.
\<close>

definition dispatch0 :: "constants \<Rightarrow> frame \<Rightarrow> Connection \<Rightarrow> Connection" where
  "dispatch0 K f c =
     (case f of
        methodFrame n m \<Rightarrow>
          (case m of
             connectionClose code text \<Rightarrow>
               shutdown (Some (newError code text))
                 (snd (send K (methodFrame 0 connectionCloseOk) c))
           | _ \<Rightarrow> c\<lparr>rpc := Some m\<rparr>)
      | heartbeatFrame n \<Rightarrow> c
      | _ \<Rightarrow> snd (closeWith K (ErrUnexpectedFrame K) c))"

text \<open>\<^verbatim>\<open>dispatchClosed\<close>, lines 262 to 278.\<close>

definition dispatchClosed :: "constants \<Rightarrow> frame \<Rightarrow> Connection \<Rightarrow> Connection" where
  "dispatchClosed K f c =
     (case f of
        methodFrame n m \<Rightarrow>
          (case m of
             channelClose code text \<Rightarrow>
               snd (send K (methodFrame (channel f) channelCloseOk) c)
           | channelCloseOk \<Rightarrow> c
           | _ \<Rightarrow> snd (closeWith K (ErrClosed K) c))
      | _ \<Rightarrow> c)"

text \<open>\<^verbatim>\<open>dispatchN\<close>, lines 243 to 249.\<close>

definition dispatchN :: "constants \<Rightarrow> frame \<Rightarrow> Connection \<Rightarrow> Connection" where
  "dispatchN K f c =
     (case map_of (channels c) (channel f) of
        Some ch \<Rightarrow> emit [EvChannelRecv (channel f) f] c
      | None \<Rightarrow> dispatchClosed K f c)"

text \<open>\<^verbatim>\<open>demux\<close>, lines 212 to 218.\<close>

definition demux :: "constants \<Rightarrow> frame \<Rightarrow> Connection \<Rightarrow> Connection" where
  "demux K f c = (if channel f = 0 then dispatch0 K f c else dispatchN K f c)"

subsection \<open>The reader task\<close>

text \<open>
  What one \<^verbatim>\<open>frames.ReadFrame()\<close> returns. The input stream is the list of
  these results; at its end no more bytes arrive and the read never returns.
\<close>

datatype input = Frame frame | ReadError string

text \<open>
  One turn of the loop of \<^verbatim>\<open>reader\<close>, lines 288 to 304. Resetting the read
  deadline changes nothing that the model holds.
\<close>

definition reader_step :: "constants \<Rightarrow> input \<Rightarrow> Connection \<Rightarrow> Connection" where
  "reader_step K i c =
     (case i of
        ReadError r \<Rightarrow> (shutdown (Some (Error (FrameError K) r)) c)\<lparr>rstate := Exited\<rparr>
      | Frame f \<Rightarrow> demux K f c)"

text \<open>
  \<^verbatim>\<open>reader\<close>, lines 283 to 306, run until it returns, blocks or has no more
  input; the rest of the input is returned.
\<close>

fun reader :: "constants \<Rightarrow> input list \<Rightarrow> Connection \<Rightarrow> input list \<times> Connection" where
  "reader K [] c = ([], c)"
| "reader K (i # ins) c =
     (if rstate c = Running \<and> rpc c = None then reader K ins (reader_step K i c)
      else (i # ins, c))"

text \<open>
  The \<^verbatim>\<open>select\<close> of a \<^verbatim>\<open>call\<close> made by a task other than the reader. The two
  tasks are interleaved in the one way the handshake needs: the reader runs
  exactly while the caller waits, one read at a time, until the \<^verbatim>\<open>select\<close> has
  something to take. With the reader stopped and nothing to take, the caller
  stays blocked.
\<close>

fun await :: "constants \<Rightarrow> input list \<Rightarrow> Connection \<Rightarrow> received outcome \<times> input list \<times> Connection" where
  "await K [] c =
     (case poll c of
        Some (r, c') \<Rightarrow> (Returned r, [], c')
      | None \<Rightarrow> (Blocked, [], c))"
| "await K (i # ins) c =
     (case poll c of
        Some (r, c') \<Rightarrow> (Returned r, i # ins, c')
      | None \<Rightarrow>
          (if rstate c = Running then await K ins (reader_step K i c)
           else (Blocked, i # ins, c)))"

text \<open>\<^verbatim>\<open>call\<close>, lines 360 to 388, made by a task other than the reader.\<close>

definition call ::
  "constants \<Rightarrow> message option \<Rightarrow> message list \<Rightarrow> input list \<Rightarrow> Connection
     \<Rightarrow> goerror option outcome \<times> message list \<times> input list \<times> Connection" where
  "call K req res ins c =
     (case call_send K req c of
        (Some err, c1) \<Rightarrow> (Returned (Some err), res, ins, c1)
      | (None, c1) \<Rightarrow>
          (case await K ins c1 of
             (Blocked, ins', c2) \<Rightarrow> (Blocked, res, ins', c2)
           | (Returned r, ins', c2) \<Rightarrow>
               (let (err, res') = call_received K r res in (Returned err, res', ins', c2))))"

text \<open>\<^verbatim>\<open>Close\<close>, lines 135 to 144.\<close>

definition Close :: "constants \<Rightarrow> input list \<Rightarrow> Connection \<Rightarrow> goerror option outcome \<times> input list \<times> Connection" where
  "Close K ins c =
     (case call K (Some (connectionClose (replySuccess K) ''kthxbai'')) [connectionCloseOk] ins c of
        (Blocked, res, ins', c1) \<Rightarrow> (Blocked, ins', c1)
      | (Returned r, res, ins', c1) \<Rightarrow> (Returned r, ins', shutdown None c1))"

subsection \<open>The opening handshake\<close>

text \<open>\<^verbatim>\<open>strings.Split(s, sep)\<close> for a separator of one character.\<close>

fun Split :: "string \<Rightarrow> char \<Rightarrow> string list" where
  "Split [] sep = [[]]"
| "Split (x # xs) sep =
     (if x = sep then [] # Split xs sep
      else (case Split xs sep of
              [] \<Rightarrow> [[x]]
            | w # ws \<Rightarrow> (x # w) # ws))"

text \<open>
  Modelled from the spec: \<^verbatim>\<open>pickSASLMechanism\<close> is declared outside
  \<^verbatim>\<open>connection.go\<close>. It selects a mechanism by intersecting the client's
  preference list with the server's list, preserving the client's priority
  order; \<open>None\<close> stands for \<^verbatim>\<open>ok == false\<close>.
\<close>

definition pickSASLMechanism :: "Authentication list \<Rightarrow> string list \<Rightarrow> Authentication option" where
  "pickSASLMechanism client serverMechanisms =
     find (\<lambda>auth. Mechanism auth \<in> set serverMechanisms) client"

text \<open>
  The variables \<^verbatim>\<open>start\<close> and \<^verbatim>\<open>tune\<close> have the static types
  \<^verbatim>\<open>*connectionStart\<close> and \<^verbatim>\<open>*connectionTune\<close>: \<^verbatim>\<open>call\<close> only ever stores a
  record of the same type there. The second equations give the zero record.
\<close>

fun start_fields :: "message list \<Rightarrow> 8 word \<times> 8 word \<times> Table \<times> string" where
  "start_fields (connectionStart major minor props mechs # _) = (major, minor, props, mechs)"
| "start_fields _ = (0, 0, [], [])"

fun tune_fields :: "message list \<Rightarrow> u16 \<times> u32 \<times> u16" where
  "tune_fields (connectionTune channelMax frameMax heartbeat # _) = (channelMax, frameMax, heartbeat)"
| "tune_fields _ = (0, 0, 0)"

text \<open>\<^verbatim>\<open>openVhost\<close>, lines 481 to 493.\<close>

definition openVhost ::
  "constants \<Rightarrow> Config \<Rightarrow> input list \<Rightarrow> Connection
     \<Rightarrow> goerror option outcome \<times> input list \<times> Connection" where
  "openVhost K config ins c =
     (case call K (Some (connectionOpen (Vhost config))) [connectionOpenOk] ins c of
        (Blocked, res, ins', c1) \<Rightarrow> (Blocked, ins', c1)
      | (Returned (Some err), res, ins', c1) \<Rightarrow> (Returned (Some (Amqp (ErrVhost K))), ins', c1)
      | (Returned None, res, ins', c1) \<Rightarrow>
          (Returned None, ins', c1\<lparr>Config := (Config c1)\<lparr>Vhost := Vhost config\<rparr>\<rparr>))"

text \<open>
  The negotiation of \<^verbatim>\<open>openTune\<close>, lines 449 to 459, on the received tune
  values. The seconds that \<^verbatim>\<open>pick\<close> returns are at most the larger of the
  client's seconds and 65535, so the product with \<^verbatim>\<open>time.Second\<close> does not
  leave the 64 bits of a \<^verbatim>\<open>time.Duration\<close>.
\<close>

definition negotiate :: "Config \<Rightarrow> u16 \<times> u32 \<times> u16 \<Rightarrow> Config \<Rightarrow> Config" where
  "negotiate config tune mine =
     (case tune of (channelMax, frameMax, heartbeat) \<Rightarrow>
        mine\<lparr>Channels := pick (Channels config) (uint channelMax),
             FrameSize := pick (FrameSize config) (uint frameMax),
             Heartbeat := Second * pick (quot (Heartbeat config) Second) (uint heartbeat)\<rparr>)"

text \<open>Lines 463 to 465: the heartbeater task is started when the interval is positive.\<close>

definition start_heartbeater :: "Connection \<Rightarrow> Connection" where
  "start_heartbeater c =
     (if Heartbeat (Config c) > 0 then emit [EvHeartbeater (Heartbeat (Config c))] c else c)"

definition tuneOk :: "Connection \<Rightarrow> frame" where
  "tuneOk c =
     methodFrame 0 (connectionTuneOk
       (word_of_int (Channels (Config c)))
       (word_of_int (FrameSize (Config c)))
       (word_of_int (quot (Heartbeat (Config c)) Second)))"

text \<open>\<^verbatim>\<open>openTune\<close>, lines 432 to 479.\<close>

definition openTune ::
  "constants \<Rightarrow> Config \<Rightarrow> Authentication \<Rightarrow> input list \<Rightarrow> Connection
     \<Rightarrow> goerror option outcome \<times> input list \<times> Connection" where
  "openTune K config auth ins c =
     (case call K (Some (connectionStartOk (Mechanism auth) (Response auth)))
             [connectionTune 0 0 0] ins c of
        (Blocked, res, ins', c1) \<Rightarrow> (Blocked, ins', c1)
      | (Returned (Some err), res, ins', c1) \<Rightarrow>
          (Returned (Some (Amqp (ErrCredentials K))), ins', c1)
      | (Returned None, res, ins', c1) \<Rightarrow>
          (let c2 = c1\<lparr>Config := negotiate config (tune_fields res) (Config c1)\<rparr>;
               c3 = start_heartbeater c2
           in case send K (tuneOk c3) c3 of
                (Some err, c4) \<Rightarrow> (Returned (Some err), ins', c4)
              | (None, c4) \<Rightarrow> openVhost K config ins' c4))"

text \<open>\<^verbatim>\<open>openStart\<close>, lines 408 to 430.\<close>

definition openStart ::
  "constants \<Rightarrow> Config \<Rightarrow> input list \<Rightarrow> Connection
     \<Rightarrow> goerror option outcome \<times> input list \<times> Connection" where
  "openStart K config ins c =
     (case call K None [connectionStart 0 0 [] []] ins c of
        (Blocked, res, ins', c1) \<Rightarrow> (Blocked, ins', c1)
      | (Returned (Some err), res, ins', c1) \<Rightarrow> (Returned (Some err), ins', c1)
      | (Returned None, res, ins', c1) \<Rightarrow>
          (case start_fields res of (major, minor, props, mechs) \<Rightarrow>
             (let c2 = c1\<lparr>Major := uint major, Minor := uint minor, Properties := props\<rparr>
              in case pickSASLMechanism (SASL config) (Split mechs CHR '' '') of
                   None \<Rightarrow> (Returned (Some (Amqp (ErrSASL K))), ins', c2)
                 | Some auth \<Rightarrow>
                     openTune K config auth ins'
                       (c2\<lparr>Config := (Config c2)\<lparr>SASL := [auth]\<rparr>\<rparr>))))"

text \<open>\<^verbatim>\<open>open\<close>, lines 400 to 406.\<close>

definition "open" ::
  "constants \<Rightarrow> Config \<Rightarrow> input list \<Rightarrow> Connection
     \<Rightarrow> goerror option outcome \<times> input list \<times> Connection" where
  "open K config ins c =
     (case send K protocolHeader c of
        (Some err, c1) \<Rightarrow> (Returned (Some err), ins, c1)
      | (None, c1) \<Rightarrow> openStart K config ins c1)"

text \<open>
  \<^verbatim>\<open>Open\<close>, lines 94 to 105. The transport \<^verbatim>\<open>conn\<close> is given by what its
  writes return (\<open>w\<close>) and by the input stream \<open>ins\<close>. The new connection has the
  zero value in every field that the literal does not set. The result is the
  returned pointer (\<open>None\<close> for \<^verbatim>\<open>nil\<close>, otherwise the connection it points to)
  and the error.
\<close>

definition new_connection :: "string option \<Rightarrow> Connection" where
  "new_connection w =
     \<lparr>destructor = False, rpc = None, sends = True, sequence = 0, channels = [],
      closes = [], errors = None,
      Config = \<lparr>SASL = [], Vhost = [], Channels = 0, FrameSize = 0, Heartbeat = 0\<rparr>,
      Major = 0, Minor = 0, Properties = [], wfault = w, rstate = NotStarted, trace = []\<rparr>"

definition go_reader :: "Connection \<Rightarrow> Connection" where
  "go_reader c = emit [EvReader] (c\<lparr>rstate := Running\<rparr>)"

definition Open ::
  "constants \<Rightarrow> string option \<Rightarrow> Config \<Rightarrow> input list
     \<Rightarrow> (Connection option \<times> goerror option) outcome \<times> input list" where
  "Open K w config ins =
     (let me = new_connection w
      in case open K config ins (go_reader me) of
           (Blocked, ins', c) \<Rightarrow> (Blocked, ins')
         | (Returned err, ins', c) \<Rightarrow> (Returned (Some c, err), ins'))"

subsection \<open>Vocabulary for the statements\<close>

text \<open>
  What one run of the body of \<^verbatim>\<open>shutdown\<close> does, in the order of the
  specification: the error to every subscriber, the shutdown of every registered
  channel, the error on the error channel, the close of the sends signal, the
  close of the transport, the close of every subscriber's channel.
\<close>

definition shutdown_effects :: "error option \<Rightarrow> errchan list \<Rightarrow> (u16 \<times> Channel) list \<Rightarrow> event list" where
  "shutdown_effects err subscribers registry =
     (case err of None \<Rightarrow> [] | Some e \<Rightarrow> map (\<lambda>ch. EvNotify ch e) subscribers)
     @ map (\<lambda>(n, ch). EvChannelShutdown n err) registry
     @ (case err of None \<Rightarrow> [] | Some e \<Rightarrow> [EvErrors e])
     @ [EvSendsClosed, EvConnClose]
     @ map EvNotifyClosed subscribers"

text \<open>The events that only the body of \<^verbatim>\<open>shutdown\<close> produces.\<close>

fun is_body :: "event \<Rightarrow> bool" where
  "is_body (EvNotify _ _) = True"
| "is_body (EvNotifyClosed _) = True"
| "is_body (EvChannelShutdown _ _) = True"
| "is_body (EvErrors _) = True"
| "is_body EvSendsClosed = True"
| "is_body EvConnClose = True"
| "is_body _ = False"

text \<open>
  \<open>advances c c'\<close>: the trace of \<open>c'\<close> extends that of \<open>c\<close>, the
  \<^verbatim>\<open>sync.Once\<close> never goes back, and the new events hold either nothing of
  the body of \<^verbatim>\<open>shutdown\<close> or exactly one run of it, the one that fired the
  \<^verbatim>\<open>sync.Once\<close>.
\<close>

definition advances :: "Connection \<Rightarrow> Connection \<Rightarrow> bool" where
  "advances c c' \<longleftrightarrow>
     (\<exists>es. trace c' = trace c @ es \<and>
        (if destructor c then destructor c' \<and> filter is_body es = []
         else (\<not> destructor c' \<and> filter is_body es = []) \<or>
              (destructor c' \<and>
               (\<exists>err subscribers registry.
                  filter is_body es = shutdown_effects err subscribers registry))))"

text \<open>
  The ways in which the connection is driven from outside, to state what holds
  after any sequence of them: a direct \<^verbatim>\<open>shutdown\<close>, a \<^verbatim>\<open>send\<close>, the
  reader task working through some input, \<^verbatim>\<open>Close\<close>, \<^verbatim>\<open>NotifyClose\<close>,
  \<^verbatim>\<open>Channel\<close>, and the transport starting or ceasing to fail its writes.
\<close>

datatype invocation =
    CallShutdown "error option"
  | CallSend frame
  | RunReader "input list"
  | CallClose "input list"
  | CallNotifyClose errchan
  | CallChannel "goerror option"
  | SetFault "string option"

fun invoke :: "constants \<Rightarrow> invocation \<Rightarrow> Connection \<Rightarrow> Connection" where
  "invoke K (CallShutdown err) c = shutdown err c"
| "invoke K (CallSend f) c = snd (send K f c)"
| "invoke K (RunReader ins) c = snd (reader K ins c)"
| "invoke K (CallClose ins) c = snd (snd (Close K ins c))"
| "invoke K (CallNotifyClose ch) c = snd (NotifyClose ch c)"
| "invoke K (CallChannel opened) c = snd (Channel opened c)"
| "invoke K (SetFault w) c = c\<lparr>wfault := w\<rparr>"

fun run :: "constants \<Rightarrow> invocation list \<Rightarrow> Connection \<Rightarrow> Connection" where
  "run K [] c = c"
| "run K (i # is) c = run K is (invoke K i c)"

section \<open>Traces\<close>

lemma trace_emit [simp]: "trace (emit es c) = trace c @ es"
  by (simp add: emit_def)

lemma emit_fields [simp]:
  "destructor (emit es c) = destructor c" "closes (emit es c) = closes c"
  "channels (emit es c) = channels c" "errors (emit es c) = errors c"
  "rpc (emit es c) = rpc c" "rstate (emit es c) = rstate c"
  "wfault (emit es c) = wfault c" "sequence (emit es c) = sequence c"
  "Config (emit es c) = Config c" "sends (emit es c) = sends c"
  by (simp_all add: emit_def)

lemma shutdown_channels_eq:
  "shutdown_channels err xs c =
     c\<lparr>channels := filter (\<lambda>p. fst p \<notin> fst ` set xs) (channels c),
       trace := trace c @ map (\<lambda>(n, ch). EvChannelShutdown n err) xs\<rparr>"
proof (induction xs arbitrary: c)
  case Nil
  then show ?case by simp
next
  case (Cons x xs)
  obtain n ch where x: "x = (n, ch)" by (cases x)
  have f: "filter (\<lambda>p. fst p \<notin> fst ` set xs) (AList.delete n (channels c))
      = filter (\<lambda>p. fst p \<notin> fst ` set (x # xs)) (channels c)"
    unfolding x AList.delete_eq filter_filter by (rule filter_cong) auto
  show ?case
    unfolding x shutdown_channels.simps Cons.IH
    using f by (simp add: emit_def x)
qed

lemma shutdown_channels_trace:
  "trace (shutdown_channels err xs c) = trace c @ map (\<lambda>(n, ch). EvChannelShutdown n err) xs"
  by (simp add: shutdown_channels_eq)

lemma shutdown_channels_channels:
  "channels (shutdown_channels err xs c) = filter (\<lambda>p. fst p \<notin> fst ` set xs) (channels c)"
  by (simp add: shutdown_channels_eq)

lemma shutdown_channels_fields [simp]:
  "destructor (shutdown_channels err xs c) = destructor c \<and>
   closes (shutdown_channels err xs c) = closes c \<and>
   errors (shutdown_channels err xs c) = errors c \<and>
   rpc (shutdown_channels err xs c) = rpc c \<and>
   rstate (shutdown_channels err xs c) = rstate c \<and>
   wfault (shutdown_channels err xs c) = wfault c \<and>
   sequence (shutdown_channels err xs c) = sequence c \<and>
   Config (shutdown_channels err xs c) = Config c"
  by (simp add: shutdown_channels_eq)

lemma shutdown_body_trace:
  "trace (shutdown_body err c) = trace c @ shutdown_effects err (closes c) (channels c)"
  by (cases err)
    (simp_all add: shutdown_body_def close_subscribers_def close_conn_def close_sends_def
      publish_error_def notify_subscribers_def shutdown_channels_trace shutdown_effects_def)

lemma shutdown_body_fields [simp]:
  "destructor (shutdown_body err c) = destructor c \<and>
   closes (shutdown_body err c) = closes c \<and>
   rpc (shutdown_body err c) = rpc c \<and>
   rstate (shutdown_body err c) = rstate c \<and>
   wfault (shutdown_body err c) = wfault c \<and>
   sequence (shutdown_body err c) = sequence c \<and>
   Config (shutdown_body err c) = Config c"
  by (cases err)
    (simp_all add: shutdown_body_def close_subscribers_def close_conn_def close_sends_def
      publish_error_def notify_subscribers_def)

lemma shutdown_body_channels [simp]: "channels (shutdown_body err c) = []"
  by (cases err)
    (auto simp add: shutdown_body_def close_subscribers_def close_conn_def close_sends_def
      publish_error_def notify_subscribers_def shutdown_channels_channels filter_empty_conv)

lemma shutdown_destructor [simp]: "destructor (shutdown err c)"
  by (simp add: shutdown_def)

lemma shutdown_done [simp]: "destructor c \<Longrightarrow> shutdown err c = c"
  by (simp add: shutdown_def)

lemma shutdown_trace:
  "trace (shutdown err c) =
     trace c @ (if destructor c then [] else shutdown_effects err (closes c) (channels c))"
  by (simp add: shutdown_def shutdown_body_trace)

lemma effects_are_body: "e \<in> set (shutdown_effects err cl chs) \<Longrightarrow> is_body e"
  by (cases err) (auto simp: shutdown_effects_def)

lemma filter_body_effects [simp]:
  "filter is_body (shutdown_effects err cl chs) = shutdown_effects err cl chs"
  by (rule filter_True) (simp add: effects_are_body)

lemma advances_refl [simp]: "advances c c"
  by (simp add: advances_def)

lemma advances_same:
  "trace c' = trace c \<Longrightarrow> destructor c' = destructor c \<Longrightarrow> advances c c'"
  by (simp add: advances_def)

lemma advances_trans [trans]:
  assumes "advances a b" and "advances b c"
  shows "advances a c"
proof -
  from assms(1) obtain es1 where e1: "trace b = trace a @ es1"
    and h1: "if destructor a then destructor b \<and> filter is_body es1 = []
         else (\<not> destructor b \<and> filter is_body es1 = []) \<or>
              (destructor b \<and>
               (\<exists>err subscribers registry.
                  filter is_body es1 = shutdown_effects err subscribers registry))"
    unfolding advances_def by blast
  from assms(2) obtain es2 where e2: "trace c = trace b @ es2"
    and h2: "if destructor b then destructor c \<and> filter is_body es2 = []
         else (\<not> destructor c \<and> filter is_body es2 = []) \<or>
              (destructor c \<and>
               (\<exists>err subscribers registry.
                  filter is_body es2 = shutdown_effects err subscribers registry))"
    unfolding advances_def by blast
  have "trace c = trace a @ (es1 @ es2)" using e1 e2 by simp
  moreover have "if destructor a then destructor c \<and> filter is_body (es1 @ es2) = []
         else (\<not> destructor c \<and> filter is_body (es1 @ es2) = []) \<or>
              (destructor c \<and>
               (\<exists>err subscribers registry.
                  filter is_body (es1 @ es2) = shutdown_effects err subscribers registry))"
    using h1 h2 by (auto split: if_splits)
  ultimately show ?thesis unfolding advances_def by blast
qed

lemma advances_emit: "filter is_body es = [] \<Longrightarrow> advances c (emit es c)"
  by (simp add: advances_def)

lemma advances_shutdown: "advances c (shutdown err c)"
  unfolding advances_def
  by (rule exI [of _ "if destructor c then [] else shutdown_effects err (closes c) (channels c)"])
    (auto simp: shutdown_trace)

lemma advances_send: "advances c (snd (send K f c))"
proof (cases "wfault c")
  case None
  then show ?thesis by (simp add: send_def advances_emit)
next
  case (Some r)
  have "advances c (emit [EvWriteFailed f r] c)" by (simp add: advances_emit)
  also have "advances \<dots> (shutdown (Some (Error (FrameError K) r)) (emit [EvWriteFailed f r] c))"
    by (rule advances_shutdown)
  finally show ?thesis using Some by (simp add: send_def)
qed

lemma advances_poll: "poll c = Some (r, c') \<Longrightarrow> advances c c'"
  by (auto simp: poll_def advances_same split: option.splits)

lemma advances_call_send: "advances c (snd (call_send K req c))"
  by (cases req) (simp_all add: call_send_def advances_send)

lemma advances_call_reader: "advances c (snd (snd (call_reader K req res c)))"
proof -
  obtain e c1 where s: "call_send K req c = (e, c1)" by (cases "call_send K req c")
  then have a1: "advances c c1" using advances_call_send [of c K req] by simp
  show ?thesis
  proof (cases e)
    case (Some err)
    then show ?thesis using s a1 by (simp add: call_reader_def)
  next
    case None
    show ?thesis
    proof (cases "poll c1")
      case n: None
      have "advances c1 (c1\<lparr>rstate := AtSelect\<rparr>)" by (simp add: advances_same)
      with a1 have "advances c (c1\<lparr>rstate := AtSelect\<rparr>)" by (rule advances_trans)
      then show ?thesis using s None n by (simp add: call_reader_def)
    next
      case (Some p)
      obtain r c2 where p: "p = (r, c2)" by (cases p)
      have "advances c1 c2" using Some p by (simp add: advances_poll)
      with a1 have "advances c c2" by (rule advances_trans)
      then show ?thesis using s None Some p by (simp add: call_reader_def split_def Let_def)
    qed
  qed
qed

lemma advances_closeWith: "advances c (snd (closeWith K err c))"
proof -
  let ?r = "call_reader K (Some (connectionClose (word_of_int (Code err)) (Reason err))) [connectionCloseOk] c"
  obtain out res c1 where r: "?r = (out, res, c1)" by (cases ?r)
  have a: "advances c c1" using advances_call_reader [of c K _ _] r
    by (metis snd_conv)
  show ?thesis
  proof (cases out)
    case (Returned x)
    have "advances c1 (shutdown (Some err) c1)" by (rule advances_shutdown)
    with a have "advances c (shutdown (Some err) c1)" by (rule advances_trans)
    then show ?thesis using r Returned by (simp add: closeWith_def)
  next
    case Blocked
    then show ?thesis using r a by (simp add: closeWith_def)
  qed
qed

lemma advances_dispatch0: "advances c (dispatch0 K f c)"
proof (cases f)
  case (methodFrame n m)
  show ?thesis
  proof (cases "\<exists>code text. m = connectionClose code text")
    case True
    then obtain k t where m: "m = connectionClose k t" by blast
    have "advances c (snd (send K (methodFrame 0 connectionCloseOk) c))" by (rule advances_send)
    also have "advances \<dots> (shutdown (Some (newError k t)) (snd (send K (methodFrame 0 connectionCloseOk) c)))"
      by (rule advances_shutdown)
    finally show ?thesis using methodFrame m by (simp add: dispatch0_def)
  next
    case False
    then have "dispatch0 K f c = c\<lparr>rpc := Some m\<rparr>"
      using methodFrame by (cases m) (simp_all add: dispatch0_def)
    then show ?thesis by (simp add: advances_same)
  qed
qed (simp_all add: dispatch0_def advances_closeWith)

lemma advances_dispatchClosed: "advances c (dispatchClosed K f c)"
proof (cases f)
  case (methodFrame n m)
  then show ?thesis
    by (cases m) (simp_all add: dispatchClosed_def advances_closeWith advances_send)
qed (simp_all add: dispatchClosed_def)

lemma advances_demux: "advances c (demux K f c)"
  by (auto simp: demux_def dispatchN_def advances_dispatch0 advances_dispatchClosed
      advances_emit split: option.splits)

lemma advances_reader_step: "advances c (reader_step K i c)"
proof (cases i)
  case (Frame f)
  then show ?thesis by (simp add: reader_step_def advances_demux)
next
  case (ReadError r)
  let ?c1 = "shutdown (Some (Error (FrameError K) r)) c"
  have "advances c ?c1" by (rule advances_shutdown)
  also have "advances ?c1 (?c1\<lparr>rstate := Exited\<rparr>)" by (simp add: advances_same)
  finally show ?thesis using ReadError by (simp add: reader_step_def)
qed

lemma advances_reader: "advances c (snd (reader K ins c))"
proof (induction ins arbitrary: c)
  case Nil
  then show ?case by simp
next
  case (Cons i ins)
  show ?case
  proof (cases "rstate c = Running \<and> rpc c = None")
    case True
    have "advances c (reader_step K i c)" by (rule advances_reader_step)
    also have "advances \<dots> (snd (reader K ins (reader_step K i c)))" by (rule Cons.IH)
    finally show ?thesis using True by simp
  next
    case False
    then show ?thesis by auto
  qed
qed

lemma advances_await: "advances c (snd (snd (await K ins c)))"
proof (induction ins arbitrary: c)
  case Nil
  then show ?case by (auto split: option.splits dest: advances_poll)
next
  case (Cons i ins)
  show ?case
  proof (cases "poll c")
    case None
    show ?thesis
    proof (cases "rstate c = Running")
      case True
      have "advances c (reader_step K i c)" by (rule advances_reader_step)
      also have "advances \<dots> (snd (snd (await K ins (reader_step K i c))))" by (rule Cons.IH)
      finally show ?thesis using None True by simp
    next
      case False
      then show ?thesis using None by simp
    qed
  next
    case (Some p)
    then show ?thesis by (cases p) (auto dest: advances_poll)
  qed
qed

lemma advances_sendE: "send K f c = (e, c') \<Longrightarrow> advances c c'"
  using advances_send [of c K f] by simp

lemma advances_awaitE: "await K ins c = (out, ins', c') \<Longrightarrow> advances c c'"
  using advances_await [of c K ins] by simp

lemma advances_call:
  assumes "call K req res ins c = (out, res', ins', c')"
  shows "advances c c'"
proof -
  obtain e c1 where s: "call_send K req c = (e, c1)" by (cases "call_send K req c")
  then have a1: "advances c c1" using advances_call_send [of c K req] by simp
  show ?thesis
  proof (cases e)
    case (Some err)
    then show ?thesis using s a1 assms by (simp add: call_def)
  next
    case None
    obtain o2 ins2 c2 where w: "await K ins c1 = (o2, ins2, c2)" by (cases "await K ins c1")
    then have "advances c1 c2" by (rule advances_awaitE)
    with a1 have a2: "advances c c2" by (rule advances_trans)
    have "c' = c2" using assms s None w
      by (cases o2) (auto simp: call_def Let_def split_def)
    then show ?thesis using a2 by simp
  qed
qed

lemma advances_Close:
  assumes "Close K ins c = (out, ins', c')"
  shows "advances c c'"
proof -
  let ?r = "call K (Some (connectionClose (replySuccess K) ''kthxbai'')) [connectionCloseOk] ins c"
  obtain o1 res1 ins1 c1 where r: "?r = (o1, res1, ins1, c1)" by (cases ?r)
  then have a: "advances c c1" by (rule advances_call)
  show ?thesis
  proof (cases o1)
    case (Returned x)
    have "advances c1 (shutdown None c1)" by (rule advances_shutdown)
    with a have "advances c (shutdown None c1)" by (rule advances_trans)
    then show ?thesis using assms r Returned by (simp add: Close_def)
  next
    case Blocked
    then show ?thesis using assms r a by (simp add: Close_def)
  qed
qed

lemma advances_openVhost:
  assumes "openVhost K config ins c = (out, ins', c')"
  shows "advances c c'"
proof -
  let ?r = "call K (Some (connectionOpen (Vhost config))) [connectionOpenOk] ins c"
  obtain o1 res1 ins1 c1 where r: "?r = (o1, res1, ins1, c1)" by (cases ?r)
  then have a: "advances c c1" by (rule advances_call)
  have "advances c1 c'"
    using assms r
    by (auto simp: openVhost_def advances_same split: outcome.splits option.splits)
  with a show ?thesis by (rule advances_trans)
qed

lemma advances_start_heartbeater: "advances c (start_heartbeater c)"
  by (simp add: start_heartbeater_def advances_emit)

lemma advances_openTune:
  assumes "openTune K config auth ins c = (out, ins', c')"
  shows "advances c c'"
proof -
  let ?r = "call K (Some (connectionStartOk (Mechanism auth) (Response auth))) [connectionTune 0 0 0] ins c"
  obtain o1 res1 ins1 c1 where r: "?r = (o1, res1, ins1, c1)" by (cases ?r)
  then have a: "advances c c1" by (rule advances_call)
  show ?thesis
  proof (cases "o1 = Returned None")
    case False
    then have "c' = c1" using assms r
      by (auto simp: openTune_def split: outcome.splits option.splits)
    then show ?thesis using a by simp
  next
    case True
    define c2 where "c2 = c1\<lparr>Config := negotiate config (tune_fields res1) (Config c1)\<rparr>"
    define c3 where "c3 = start_heartbeater c2"
    obtain e c4 where s: "send K (tuneOk c3) c3 = (e, c4)" by (cases "send K (tuneOk c3) c3")
    have "advances c1 c2" by (simp add: c2_def advances_same)
    also have "advances c2 c3" unfolding c3_def by (rule advances_start_heartbeater)
    also have "advances c3 c4" using s by (rule advances_sendE)
    finally have a4: "advances c1 c4" .
    have "advances c4 c'"
    proof (cases e)
      case None
      then have "openVhost K config ins1 c4 = (out, ins', c')"
        using assms r True s by (simp add: openTune_def Let_def c2_def c3_def)
      then show ?thesis by (rule advances_openVhost)
    next
      case (Some err)
      then have "c' = c4"
        using assms r True s by (simp add: openTune_def Let_def c2_def c3_def)
      then show ?thesis by simp
    qed
    with a4 have "advances c1 c'" by (rule advances_trans)
    with a show ?thesis by (rule advances_trans)
  qed
qed

lemma advances_openStart:
  assumes "openStart K config ins c = (out, ins', c')"
  shows "advances c c'"
proof -
  let ?r = "call K None [connectionStart 0 0 [] []] ins c"
  obtain o1 res1 ins1 c1 where r: "?r = (o1, res1, ins1, c1)" by (cases ?r)
  then have a: "advances c c1" by (rule advances_call)
  show ?thesis
  proof (cases "o1 = Returned None")
    case False
    then have "c' = c1" using assms r
      by (auto simp: openStart_def split: outcome.splits option.splits)
    then show ?thesis using a by simp
  next
    case True
    obtain major minor props mechs where f: "start_fields res1 = (major, minor, props, mechs)"
      by (cases "start_fields res1")
    define c2 where "c2 = c1\<lparr>Major := uint major, Minor := uint minor, Properties := props\<rparr>"
    have a2: "advances c1 c2" by (simp add: c2_def advances_same)
    have "advances c2 c'"
    proof (cases "pickSASLMechanism (SASL config) (Split mechs CHR '' '')")
      case None
      then have "c' = c2" using assms r True f
        by (simp add: openStart_def Let_def c2_def)
      then show ?thesis by simp
    next
      case (Some auth)
      let ?c3 = "c2\<lparr>Config := (Config c2)\<lparr>SASL := [auth]\<rparr>\<rparr>"
      have "openTune K config auth ins1 ?c3 = (out, ins', c')"
        using assms r True f Some by (simp add: openStart_def Let_def c2_def)
      then have "advances ?c3 c'" by (rule advances_openTune)
      moreover have "advances c2 ?c3" by (simp add: advances_same)
      ultimately show ?thesis using advances_trans by blast
    qed
    with a2 have "advances c1 c'" by (rule advances_trans)
    with a show ?thesis by (rule advances_trans)
  qed
qed

lemma advances_open:
  assumes "open K config ins c = (out, ins', c')"
  shows "advances c c'"
proof -
  obtain e c1 where s: "send K protocolHeader c = (e, c1)" by (cases "send K protocolHeader c")
  then have a: "advances c c1" by (rule advances_sendE)
  show ?thesis
  proof (cases e)
    case None
    then have "openStart K config ins c1 = (out, ins', c')"
      using assms s by (simp add: open_def)
    then have "advances c1 c'" by (rule advances_openStart)
    with a show ?thesis by (rule advances_trans)
  next
    case (Some err)
    then have "c' = c1" using assms s by (simp add: open_def)
    then show ?thesis using a by simp
  qed
qed

lemma advances_Channel: "advances c (snd (Channel opened c))"
  by (simp add: Channel_def nextChannelId_def Let_def advances_def)

lemma advances_NotifyClose: "advances c (snd (NotifyClose ch c))"
  by (simp add: NotifyClose_def advances_same)

lemma advances_invoke: "advances c (invoke K i c)"
proof (cases i)
  case (CallClose ins)
  obtain out ins' c' where r: "Close K ins c = (out, ins', c')" by (cases "Close K ins c")
  then have "advances c c'" by (rule advances_Close)
  then show ?thesis using CallClose r by simp
qed (simp_all add: advances_shutdown advances_send advances_reader advances_NotifyClose
    advances_Channel advances_same)

lemma advances_run: "advances c (run K is c)"
proof (induction "is" arbitrary: c)
  case Nil
  then show ?case by simp
next
  case (Cons i "is")
  have "advances c (invoke K i c)" by (rule advances_invoke)
  also have "advances \<dots> (run K is (invoke K i c))" by (rule Cons.IH)
  finally show ?case by simp
qed

lemma shutdown_idem: "shutdown err' (shutdown err c) = shutdown err c"
  by simp

lemma one_conn_close:
  "length (filter ((=) EvConnClose) (shutdown_effects err cl chs)) = 1"
  by (cases err) (simp_all add: shutdown_effects_def filter_map o_def split_def)

lemma filter_conn_close_body:
  "filter ((=) EvConnClose) (filter is_body es) = filter ((=) EvConnClose) es"
  unfolding filter_filter by (rule filter_cong) auto

section \<open>Single operations\<close>

lemma send_ok:
  "wfault c = None \<Longrightarrow> send K f c = (None, emit [EvWrite f] c)"
  by (simp add: send_def)

lemma send_failed:
  "wfault c = Some r \<Longrightarrow>
     send K f c = (Some (WriteError r),
       shutdown (Some (Error (FrameError K) r)) (emit [EvWriteFailed f r] c))"
  by (simp add: send_def)



lemma closeWith_waits:
  assumes "wfault c = None" and "errors c = None" and "rpc c = None"
  shows "closeWith K err c =
     (Blocked,
      (emit [EvWrite (methodFrame 0 (connectionClose (word_of_int (Code err)) (Reason err)))] c)
        \<lparr>rstate := AtSelect\<rparr>)"
  using assms by (simp add: closeWith_def call_reader_def call_send_def send_ok poll_def)

lemma closeWith_write_failed:
  assumes "wfault c = Some r"
  shows "fst (closeWith K err c) = Returned (Some (WriteError r))"
    and "destructor (snd (closeWith K err c))"
  using assms by (simp_all add: closeWith_def call_reader_def call_send_def send_failed)

lemma try_slots_none:
  "(\<forall>r \<in> set res. TypeOf r \<noteq> TypeOf msg) \<Longrightarrow> try_slots msg res = None"
  by (induction res) auto

lemma try_slots_first:
  "i < length res \<Longrightarrow> TypeOf (res ! i) = TypeOf msg \<Longrightarrow>
   (\<forall>j<i. TypeOf (res ! j) \<noteq> TypeOf msg) \<Longrightarrow>
   try_slots msg res = Some (res[i := msg])"
proof (induction res arbitrary: i)
  case Nil
  then show ?case by simp
next
  case (Cons a res)
  show ?case
  proof (cases i)
    case 0
    then show ?thesis using Cons.prems by simp
  next
    case (Suc k)
    have a: "TypeOf msg \<noteq> TypeOf a" using Cons.prems(3) Suc by force
    have "try_slots msg res = Some (res[k := msg])"
    proof (rule Cons.IH)
      show "k < length res" using Cons.prems(1) Suc by simp
      show "TypeOf (res ! k) = TypeOf msg" using Cons.prems(2) Suc by simp
      show "\<forall>j<k. TypeOf (res ! j) \<noteq> TypeOf msg"
        using Cons.prems(3) Suc by force
    qed
    then show ?thesis using a Suc by simp
  qed
qed

lemma quot_small: "0 \<le> a \<Longrightarrow> a < b \<Longrightarrow> quot a b = 0"
  by (simp add: quot_def)

lemma negotiate_heartbeat_small:
  assumes "0 \<le> Heartbeat config" and "Heartbeat config < Second"
  shows "Heartbeat (negotiate config (channelMax, frameMax, heartbeat) mine) = Second * uint heartbeat"
  using assms by (simp add: negotiate_def quot_small pick_def)

lemma run_append: "run K (xs @ ys) c = run K ys (run K xs c)"
  by (induction xs arbitrary: c) simp_all

lemma sequence_Channel: "sequence (snd (Channel opened c)) = sequence c + 1"
  by (simp add: Channel_def nextChannelId_def Let_def)

lemma channels_Channel:
  "channels (snd (Channel opened c)) =
     AList.update (ucast (sequence c + 1)) (newChannel (ucast (sequence c + 1))) (channels c)"
  by (simp add: Channel_def nextChannelId_def Let_def)

lemma sequence_allocations:
  "sequence (run K (replicate n (CallChannel opened)) c) = sequence c + of_nat n"
proof (induction n)
  case 0
  then show ?case by simp
next
  case (Suc n)
  have "replicate (Suc n) (CallChannel opened) = replicate n (CallChannel opened) @ [CallChannel opened]"
    by (simp add: replicate_append_same)
  then show ?case using Suc by (simp add: run_append sequence_Channel)
qed

lemma last_allocation:
  "map_of (channels (run K (replicate (Suc n) (CallChannel opened)) c))
     (ucast (sequence c + of_nat n + 1)) = Some (newChannel (ucast (sequence c + of_nat n + 1)))"
proof -
  have "replicate (Suc n) (CallChannel opened) = replicate n (CallChannel opened) @ [CallChannel opened]"
    by (simp add: replicate_append_same)
  then show ?thesis
    by (simp add: run_append channels_Channel sequence_allocations update_conv')
qed

lemma small_id_nonzero:
  assumes "0 < m" and "m < 65536"
  shows "(ucast (of_nat m :: 32 word) :: 16 word) \<noteq> 0"
proof -
  have "take_bit 32 m = m" using assms by (simp add: take_bit_nat_eq_self)
  then have "(ucast (of_nat m :: 32 word) :: 16 word) = of_nat m"
    by (simp add: unsigned_of_nat)
  moreover have "(of_nat m :: 16 word) \<noteq> 0"
    using assms by (intro of_nat_neq_0) simp_all
  ultimately show ?thesis by simp
qed

lemma early_ids_nonzero:
  "n < 65536 \<Longrightarrow>
     0 \<notin> fst ` set (channels (run K (replicate n (CallChannel opened)) (go_reader (new_connection w))))"
proof (induction n)
  case 0
  then show ?case by (simp add: go_reader_def new_connection_def)
next
  case (Suc n)
  let ?init = "go_reader (new_connection w)"
  have s: "sequence ?init = 0" by (simp add: go_reader_def new_connection_def)
  have r: "replicate (Suc n) (CallChannel opened) = replicate n (CallChannel opened) @ [CallChannel opened]"
    by (simp add: replicate_append_same)
  have "(ucast (of_nat (Suc n) :: 32 word) :: 16 word) \<noteq> 0"
    using Suc.prems by (intro small_id_nonzero) simp_all
  then have "(ucast (of_nat n + 1 :: 32 word) :: 16 word) \<noteq> 0" by (simp add: add.commute)
  moreover have "0 \<notin> fst ` set (channels (run K (replicate n (CallChannel opened)) ?init))"
    using Suc by simp
  ultimately show ?case
    unfolding r by (simp add: run_append channels_Channel sequence_allocations s dom_update)
qed

lemma openTune_call_failed:
  assumes "call K (Some (connectionStartOk (Mechanism auth) (Response auth)))
             [connectionTune 0 0 0] ins c = (Returned (Some err), res, ins', c1)"
  shows "openTune K config auth ins c = (Returned (Some (Amqp (ErrCredentials K))), ins', c1)"
  using assms by (simp add: openTune_def)

text \<open>The definitions that a run of the model on given input unfolds.\<close>

lemmas model_defs =
  send_def shutdown_def shutdown_body_def notify_subscribers_def publish_error_def
  close_sends_def close_conn_def close_subscribers_def emit_def poll_def call_reply_def
  call_received_def call_send_def call_reader_def closeWith_def dispatch0_def
  dispatchClosed_def dispatchN_def demux_def reader_step_def call_def Close_def
  openVhost_def negotiate_def start_heartbeater_def tuneOk_def openTune_def openStart_def
  open_def new_connection_def go_reader_def Open_def pickSASLMechanism_def NotifyClose_def
  Channel_def nextChannelId_def pick_def quot_def Second_def newError_def
  shutdown_effects_def Let_def

section \<open>Tuning negotiation\<close>

text \<open>
  C1. For all integers \<open>c\<close> (client) and \<open>s\<close> (server), non-negative or not,
  \<open>pick c s\<close> is the larger of the two when one of them is 0 and the smaller of
  the two otherwise.
\<close>

theorem pick_max_min:
  "pick c s = (if c = 0 \<or> s = 0 then max c s else min c s)"
  by (simp add: pick_def max_def min_def)

theorem pick_max_min_witness:
  "pick 0 100 = 100 \<and> pick 50 0 = 50 \<and> pick 50 100 = 50 \<and> pick 100 50 = 50"
  using pick_max_min [of 0 100] pick_max_min [of 50 0]
    pick_max_min [of 50 100] pick_max_min [of 100 50]
  by simp

section \<open>Shutdown\<close>

text \<open>
  C2. Start from a new connection whose reader task runs, and drive it by any
  sequence of direct shutdowns, sends (which shut down on a write error), reader
  work (which shuts down on a read error and on a \<^verbatim>\<open>connection.close\<close> from
  the server), \<^verbatim>\<open>Close\<close>, \<^verbatim>\<open>NotifyClose\<close> and \<^verbatim>\<open>Channel\<close>, with
  the transport failing its writes or not. Then the events of the body of
  \<^verbatim>\<open>shutdown\<close> in the trace are either none or those of one single run of
  the body; in particular the transport is closed at most once. A
  \<^verbatim>\<open>shutdown\<close> after a \<^verbatim>\<open>shutdown\<close> changes nothing.
\<close>

theorem shutdown_body_at_most_once:
  "(\<exists>err subscribers registry.
      filter is_body (trace (run K invocations (go_reader (new_connection w))))
        \<in> {[], shutdown_effects err subscribers registry})
   \<and> length (filter ((=) EvConnClose) (trace (run K invocations (go_reader (new_connection w))))) \<le> 1
   \<and> shutdown err' (shutdown err c) = shutdown err c"
proof -
  let ?init = "go_reader (new_connection w)"
  let ?final = "run K invocations ?init"
  have i: "trace ?init = [EvReader]" "\<not> destructor ?init"
    by (simp_all add: go_reader_def new_connection_def)
  have "advances ?init ?final" by (rule advances_run)
  then obtain es where t: "trace ?final = trace ?init @ es"
    and h: "filter is_body es = [] \<or>
      (\<exists>err subscribers registry. filter is_body es = shutdown_effects err subscribers registry)"
    unfolding advances_def using i(2) by (auto split: if_splits)
  have "filter is_body (trace ?final) = filter is_body es"
    using t i(1) by simp
  with h have d: "filter is_body (trace ?final) = [] \<or>
      (\<exists>err subscribers registry. filter is_body (trace ?final) = shutdown_effects err subscribers registry)"
    by simp
  then have 1: "\<exists>err subscribers registry.
      filter is_body (trace ?final) \<in> {[], shutdown_effects err subscribers registry}"
    by auto
  have "length (filter ((=) EvConnClose) (filter is_body (trace ?final))) \<le> 1"
    using d by (auto simp del: filter_filter simp add: one_conn_close)
  then have 2: "length (filter ((=) EvConnClose) (trace ?final)) \<le> 1"
    by (simp only: filter_conn_close_body)
  show ?thesis using 1 2 by simp
qed

theorem shutdown_body_at_most_once_witness:
  "\<forall>K. filter is_body (trace (run K
       [CallNotifyClose 7, SetFault (Some ''broken pipe''), CallSend (heartbeatFrame 0),
        RunReader [ReadError ''EOF''], CallClose [], CallShutdown None]
       (go_reader (new_connection None))))
     = shutdown_effects (Some (Error (FrameError K) ''broken pipe'')) [7] []"
proof
  fix K
  show "filter is_body (trace (run K
       [CallNotifyClose 7, SetFault (Some ''broken pipe''), CallSend (heartbeatFrame 0),
        RunReader [ReadError ''EOF''], CallClose [], CallShutdown None]
       (go_reader (new_connection None))))
     = shutdown_effects (Some (Error (FrameError K) ''broken pipe'')) [7] []"
    using shutdown_body_at_most_once [of K
       "[CallNotifyClose 7, SetFault (Some ''broken pipe''), CallSend (heartbeatFrame 0),
        RunReader [ReadError ''EOF''], CallClose [], CallShutdown None]" None]
    by (simp add: model_defs)
qed

section \<open>Heartbeat negotiation\<close>

text \<open>
  C3. The claim is that a client interval below one second disables the
  heartbeats whatever the server offers; the comment on \<^verbatim>\<open>Config.Heartbeat\<close>
  says the same. The code negotiates otherwise: an interval of half a second is
  0 whole seconds, \<^verbatim>\<open>pick\<close> of 0 and the server's 10 seconds is 10, so the
  negotiated interval is 10 seconds and the heartbeater task is started.
\<close>

theorem heartbeat_enabled_by_server:
  "\<forall>K. \<exists>c. Open K None
        \<lparr>SASL = [Authentication ''PLAIN'' ''guest''], Vhost = ''/'', Channels = 0,
         FrameSize = 0, Heartbeat = 500000000\<rparr>
        [Frame (methodFrame 0 (connectionStart 0 9 [] ''PLAIN'')),
         Frame (methodFrame 0 (connectionTune 2047 131072 10)),
         Frame (methodFrame 0 connectionOpenOk)]
      = (Returned (Some c, None), [])
    \<and> Heartbeat (Config c) = 10 * Second
    \<and> EvHeartbeater (10 * Second) \<in> set (trace c)"
  by (simp add: model_defs)

section \<open>Channel ids\<close>

text \<open>
  C4. The claim is that \<^verbatim>\<open>nextChannelId\<close> never returns 0 and that id 0
  never enters the registry. The first 65535 allocations do give non-zero ids
  (\<open>early_ids_nonzero\<close>), but on the 65536th call of \<^verbatim>\<open>Channel\<close> the counter
  is 65536, which \<^verbatim>\<open>uint16\<close> truncates to 0: \<^verbatim>\<open>nextChannelId\<close> returns 0
  and the channel is stored under id 0.
\<close>

theorem channel_id_wraps_to_zero:
  "\<forall>K w opened.
     fst (nextChannelId (run K (replicate 65535 (CallChannel opened)) (go_reader (new_connection w)))) = 0
   \<and> map_of (channels (run K (replicate 65536 (CallChannel opened)) (go_reader (new_connection w)))) 0
       = Some (newChannel 0)"
proof (intro allI conjI)
  fix K w opened
  let ?init = "go_reader (new_connection w)"
  have s: "sequence ?init = 0" by (simp add: go_reader_def new_connection_def)
  show "fst (nextChannelId (run K (replicate 65535 (CallChannel opened)) ?init)) = 0"
    by (simp add: nextChannelId_def Let_def sequence_allocations s)
  have "(65536::nat) = Suc 65535" by simp
  then have "map_of (channels (run K (replicate 65536 (CallChannel opened)) ?init))
     (ucast (sequence ?init + of_nat 65535 + 1)) = Some (newChannel (ucast (sequence ?init + of_nat 65535 + 1)))"
    using last_allocation [of K 65535 opened ?init] by simp
  moreover have "(65536 :: 16 word) = 0" by simp
  ultimately show "map_of (channels (run K (replicate 65536 (CallChannel opened)) ?init)) 0 = Some (newChannel 0)"
    by (simp add: s)
qed

section \<open>A close from the server\<close>

text \<open>
  C5. A method frame on channel 0 that carries \<^verbatim>\<open>connection.close\<close> with
  reply code \<open>k\<close> and reply text \<open>t\<close> is handled by sending
  \<^verbatim>\<open>connection.close-ok\<close> on channel 0 and then calling \<^verbatim>\<open>shutdown\<close> with
  the error built from \<open>k\<close> and \<open>t\<close>. When the transport writes, the write of
  \<^verbatim>\<open>connection.close-ok\<close> is the first new event and the run of the body of
  \<^verbatim>\<open>shutdown\<close> with that error, which closes the transport, follows it (when
  the body has not run before). When the write fails, the failed write is the
  first new event and \<^verbatim>\<open>send\<close> has already shut the connection down with
  the frame error.
\<close>

theorem connection_close_ok_before_shutdown:
  "demux K (methodFrame 0 (connectionClose k t)) c =
     shutdown (Some (newError k t)) (snd (send K (methodFrame 0 connectionCloseOk) c))
   \<and> (wfault c = None \<longrightarrow>
        trace (demux K (methodFrame 0 (connectionClose k t)) c) =
          trace c @ EvWrite (methodFrame 0 connectionCloseOk) #
            (if destructor c then []
             else shutdown_effects (Some (newError k t)) (closes c) (channels c)))
   \<and> (\<forall>r. wfault c = Some r \<longrightarrow>
        trace (demux K (methodFrame 0 (connectionClose k t)) c) =
          trace c @ EvWriteFailed (methodFrame 0 connectionCloseOk) r #
            (if destructor c then []
             else shutdown_effects (Some (Error (FrameError K) r)) (closes c) (channels c)))"
proof -
  have 1: "demux K (methodFrame 0 (connectionClose k t)) c =
     shutdown (Some (newError k t)) (snd (send K (methodFrame 0 connectionCloseOk) c))"
    by (simp add: demux_def dispatch0_def)
  have 2: "trace (demux K (methodFrame 0 (connectionClose k t)) c) =
          trace c @ EvWrite (methodFrame 0 connectionCloseOk) #
            (if destructor c then []
             else shutdown_effects (Some (newError k t)) (closes c) (channels c))"
    if "wfault c = None"
    unfolding 1 using that by (simp add: send_ok shutdown_trace)
  have 3: "trace (demux K (methodFrame 0 (connectionClose k t)) c) =
          trace c @ EvWriteFailed (methodFrame 0 connectionCloseOk) r #
            (if destructor c then []
             else shutdown_effects (Some (Error (FrameError K) r)) (closes c) (channels c))"
    if "wfault c = Some r" for r
    unfolding 1 using that by (simp add: send_failed shutdown_trace)
  show ?thesis using 1 2 3 by blast
qed

theorem connection_close_ok_before_shutdown_witness:
  "\<forall>K.
     trace (demux K (methodFrame 0 (connectionClose 320 ''going down''))
        ((go_reader (new_connection None))\<lparr>closes := [1, 2], channels := [(1, newChannel 1)]\<rparr>))
     = [EvReader, EvWrite (methodFrame 0 connectionCloseOk),
        EvNotify 1 (Error 320 ''going down''), EvNotify 2 (Error 320 ''going down''),
        EvChannelShutdown 1 (Some (Error 320 ''going down'')),
        EvErrors (Error 320 ''going down''), EvSendsClosed, EvConnClose,
        EvNotifyClosed 1, EvNotifyClosed 2]
   \<and> trace (demux K (methodFrame 0 (connectionClose 320 ''going down''))
        ((go_reader (new_connection (Some ''broken pipe'')))\<lparr>closes := [1]\<rparr>))
     = [EvReader, EvWriteFailed (methodFrame 0 connectionCloseOk) ''broken pipe'',
        EvNotify 1 (Error (FrameError K) ''broken pipe''),
        EvErrors (Error (FrameError K) ''broken pipe''), EvSendsClosed, EvConnClose,
        EvNotifyClosed 1]"
proof (intro allI conjI)
  fix K
  show "trace (demux K (methodFrame 0 (connectionClose 320 ''going down''))
        ((go_reader (new_connection None))\<lparr>closes := [1, 2], channels := [(1, newChannel 1)]\<rparr>))
     = [EvReader, EvWrite (methodFrame 0 connectionCloseOk),
        EvNotify 1 (Error 320 ''going down''), EvNotify 2 (Error 320 ''going down''),
        EvChannelShutdown 1 (Some (Error 320 ''going down'')),
        EvErrors (Error 320 ''going down''), EvSendsClosed, EvConnClose,
        EvNotifyClosed 1, EvNotifyClosed 2]"
    using connection_close_ok_before_shutdown [of K 320 "''going down''"
        "(go_reader (new_connection None))\<lparr>closes := [1, 2], channels := [(1, newChannel 1)]\<rparr>"]
    by (simp add: model_defs)
  show "trace (demux K (methodFrame 0 (connectionClose 320 ''going down''))
        ((go_reader (new_connection (Some ''broken pipe'')))\<lparr>closes := [1]\<rparr>))
     = [EvReader, EvWriteFailed (methodFrame 0 connectionCloseOk) ''broken pipe'',
        EvNotify 1 (Error (FrameError K) ''broken pipe''),
        EvErrors (Error (FrameError K) ''broken pipe''), EvSendsClosed, EvConnClose,
        EvNotifyClosed 1]"
    using connection_close_ok_before_shutdown [of K 320 "''going down''"
        "(go_reader (new_connection (Some ''broken pipe'')))\<lparr>closes := [1]\<rparr>"]
    by (simp add: model_defs)
qed

section \<open>The RPC rendezvous\<close>

text \<open>
  C6. Let a \<^verbatim>\<open>call\<close> have sent its request, if any, and let its
  \<^verbatim>\<open>select\<close> receive the message \<open>msg\<close> from \<^verbatim>\<open>me.rpc\<close>. If the record at
  index \<open>i\<close> of the expected responses is the first one of the type of \<open>msg\<close>,
  the call returns no error and that record now holds \<open>msg\<close>, the others being
  unchanged. If no expected response has the type of \<open>msg\<close>, the call returns
  \<^verbatim>\<open>ErrCommandInvalid\<close> and every record is unchanged.
\<close>

theorem call_matches_reply:
  assumes "call_send K req c = (None, c1)"
    and "await K ins c1 = (Returned (GotMessage msg), ins', c2)"
  shows "(\<forall>i<length res. TypeOf (res ! i) = TypeOf msg \<longrightarrow>
            (\<forall>j<i. TypeOf (res ! j) \<noteq> TypeOf msg) \<longrightarrow>
            call K req res ins c = (Returned None, res[i := msg], ins', c2))
       \<and> ((\<forall>r \<in> set res. TypeOf r \<noteq> TypeOf msg) \<longrightarrow>
            call K req res ins c =
              (Returned (Some (Amqp (ErrCommandInvalid K))), res, ins', c2))"
proof -
  have c: "call K req res ins c =
      (Returned (fst (call_reply K msg res)), snd (call_reply K msg res), ins', c2)"
    using assms by (simp add: call_def call_received_def split_def Let_def)
  show ?thesis
    unfolding c by (simp add: call_reply_def try_slots_none try_slots_first)
qed

theorem call_matches_reply_witness:
  "\<forall>K.
     call K None [connectionStart 0 0 [] [], connectionTune 0 0 0]
        [Frame (methodFrame 0 (connectionTune 2047 131072 10))] (go_reader (new_connection None))
     = (Returned None, [connectionStart 0 0 [] [], connectionTune 2047 131072 10], [],
        go_reader (new_connection None))
   \<and> call K None [connectionOpenOk]
        [Frame (methodFrame 0 (connectionTune 2047 131072 10))] (go_reader (new_connection None))
     = (Returned (Some (Amqp (ErrCommandInvalid K))), [connectionOpenOk], [],
        go_reader (new_connection None))"
proof (intro allI conjI)
  fix K
  let ?c = "go_reader (new_connection None)"
  let ?ins = "[Frame (methodFrame 0 (connectionTune 2047 131072 10))]"
  have s: "call_send K None ?c = (None, ?c)" by (simp add: call_send_def)
  have a: "await K ?ins ?c = (Returned (GotMessage (connectionTune 2047 131072 10)), [], ?c)"
    by (simp add: model_defs)
  show "call K None [connectionStart 0 0 [] [], connectionTune 0 0 0] ?ins ?c
     = (Returned None, [connectionStart 0 0 [] [], connectionTune 2047 131072 10], [], ?c)"
    using call_matches_reply [OF s a, of "[connectionStart 0 0 [] [], connectionTune 0 0 0]",
        THEN conjunct1, rule_format, of 1]
    by simp
  show "call K None [connectionOpenOk] ?ins ?c
     = (Returned (Some (Amqp (ErrCommandInvalid K))), [connectionOpenOk], [], ?c)"
    using call_matches_reply [OF s a, of "[connectionOpenOk]"]
    by simp
qed

section \<open>The handshake\<close>

text \<open>
  C7. Let \<^verbatim>\<open>Open\<close> have written the protocol header, received START and
  chosen the mechanism \<open>auth\<close>. If the \<^verbatim>\<open>call\<close> that sends START-OK and
  awaits TUNE returns an error, whichever it is, then \<^verbatim>\<open>Open\<close> returns
  \<^verbatim>\<open>ErrCredentials\<close>, and the connection is left as that call left it: no
  TUNE-OK and no \<^verbatim>\<open>connection.open\<close> are sent and no heartbeater is started.
\<close>

theorem Open_tune_failure_is_credentials:
  assumes "send K protocolHeader (go_reader (new_connection w)) = (None, c0)"
    and "call K None [connectionStart 0 0 [] []] ins c0 = (Returned None, res0, ins0, c1)"
    and "start_fields res0 = (major, minor, props, mechs)"
    and "pickSASLMechanism (SASL config) (Split mechs CHR '' '') = Some auth"
    and "call K (Some (connectionStartOk (Mechanism auth) (Response auth))) [connectionTune 0 0 0]
           ins0
           (c1\<lparr>Major := uint major, Minor := uint minor, Properties := props,
               Config := (Config c1)\<lparr>SASL := [auth]\<rparr>\<rparr>)
         = (Returned (Some err), res, ins', c2)"
  shows "Open K w config ins = (Returned (Some c2, Some (Amqp (ErrCredentials K))), ins')"
proof -
  let ?c = "c1\<lparr>Major := uint major, Minor := uint minor, Properties := props,
               Config := (Config c1)\<lparr>SASL := [auth]\<rparr>\<rparr>"
  have t: "openTune K config auth ins0 ?c = (Returned (Some (Amqp (ErrCredentials K))), ins', c2)"
    using assms(5) by (rule openTune_call_failed)
  have "openStart K config ins c0 = (Returned (Some (Amqp (ErrCredentials K))), ins', c2)"
    using assms(2,3,4) t by (simp add: openStart_def Let_def)
  then have "open K config ins (go_reader (new_connection w))
      = (Returned (Some (Amqp (ErrCredentials K))), ins', c2)"
    using assms(1) by (simp add: open_def)
  then show ?thesis by (simp add: Open_def)
qed

theorem Open_tune_failure_is_credentials_witness:
  "\<forall>K. \<exists>c.
     Open K None
       \<lparr>SASL = [Authentication ''PLAIN'' ''guest''], Vhost = ''/'', Channels = 0,
        FrameSize = 0, Heartbeat = 0\<rparr>
       [Frame (methodFrame 0 (connectionStart 0 9 [] ''PLAIN'')), ReadError ''EOF'']
     = (Returned (Some c, Some (Amqp (ErrCredentials K))), [])
     \<and> trace c =
        [EvReader, EvWrite protocolHeader,
         EvWrite (methodFrame 0 (connectionStartOk ''PLAIN'' ''guest'')),
         EvErrors (Error (FrameError K) ''EOF''), EvSendsClosed, EvConnClose]"
proof
  fix K
  let ?config = "\<lparr>SASL = [Authentication ''PLAIN'' ''guest''], Vhost = ''/'', Channels = 0,
        FrameSize = 0, Heartbeat = 0\<rparr>"
  let ?auth = "Authentication ''PLAIN'' ''guest''"
  let ?c0 = "emit [EvWrite protocolHeader] (go_reader (new_connection None))"
  have h1: "send K protocolHeader (go_reader (new_connection None)) = (None, ?c0)"
    by (simp add: model_defs)
  have h2: "call K None [connectionStart 0 0 [] []]
        [Frame (methodFrame 0 (connectionStart 0 9 [] ''PLAIN'')), ReadError ''EOF''] ?c0
      = (Returned None, [connectionStart 0 9 [] ''PLAIN''], [ReadError ''EOF''], ?c0)"
    by (simp add: model_defs)
  have h3: "start_fields [connectionStart 0 9 [] ''PLAIN''] = (0, 9, [], ''PLAIN'')"
    by simp
  have h4: "pickSASLMechanism (SASL ?config) (Split ''PLAIN'' CHR '' '') = Some ?auth"
    by (simp add: pickSASLMechanism_def)
  have "\<exists>err res ins' c2.
      call K (Some (connectionStartOk (Mechanism ?auth) (Response ?auth))) [connectionTune 0 0 0]
        [ReadError ''EOF'']
        (?c0\<lparr>Major := uint (0 :: 8 word), Minor := uint (9 :: 8 word), Properties := [],
            Config := (Config ?c0)\<lparr>SASL := [?auth]\<rparr>\<rparr>)
        = (Returned (Some err), res, ins', c2)
      \<and> ins' = []
      \<and> trace c2 =
        [EvReader, EvWrite protocolHeader,
         EvWrite (methodFrame 0 (connectionStartOk ''PLAIN'' ''guest'')),
         EvErrors (Error (FrameError K) ''EOF''), EvSendsClosed, EvConnClose]"
    by (simp add: model_defs)
  then obtain err res ins' c2 where
    h5: "call K (Some (connectionStartOk (Mechanism ?auth) (Response ?auth))) [connectionTune 0 0 0]
        [ReadError ''EOF'']
        (?c0\<lparr>Major := uint (0 :: 8 word), Minor := uint (9 :: 8 word), Properties := [],
            Config := (Config ?c0)\<lparr>SASL := [?auth]\<rparr>\<rparr>)
        = (Returned (Some err), res, ins', c2)"
    and i: "ins' = []"
    and t: "trace c2 =
        [EvReader, EvWrite protocolHeader,
         EvWrite (methodFrame 0 (connectionStartOk ''PLAIN'' ''guest'')),
         EvErrors (Error (FrameError K) ''EOF''), EvSendsClosed, EvConnClose]"
    by blast
  have "Open K None ?config
       [Frame (methodFrame 0 (connectionStart 0 9 [] ''PLAIN'')), ReadError ''EOF'']
     = (Returned (Some c2, Some (Amqp (ErrCredentials K))), ins')"
    using Open_tune_failure_is_credentials [OF h1 h2 h3 h4 h5] .
  then show "\<exists>c.
     Open K None ?config
       [Frame (methodFrame 0 (connectionStart 0 9 [] ''PLAIN'')), ReadError ''EOF'']
     = (Returned (Some c, Some (Amqp (ErrCredentials K))), [])
     \<and> trace c =
        [EvReader, EvWrite protocolHeader,
         EvWrite (methodFrame 0 (connectionStartOk ''PLAIN'' ''guest'')),
         EvErrors (Error (FrameError K) ''EOF''), EvSendsClosed, EvConnClose]"
    using i t by simp
qed

section \<open>Frames for a channel that is not registered\<close>



section \<open>Subscribers\<close>



section \<open>The result of Open\<close>

text \<open>
  C10. Whenever \<^verbatim>\<open>Open\<close> returns, with an error or without, the pointer it
  returns is not nil, and the connection it points to has the start of the reader
  task as the first event of its trace: the reader was started before the
  handshake. (\<^verbatim>\<open>Open\<close> does not return when the handshake waits for a frame
  that never arrives.)
\<close>

theorem Open_returns_connection:
  "case fst (Open K w config ins) of
     Blocked \<Rightarrow> True
   | Returned (p, err) \<Rightarrow> (\<exists>c es. p = Some c \<and> trace c = EvReader # es)"
proof -
  let ?init = "go_reader (new_connection w)"
  obtain out ins' c where r: "open K config ins ?init = (out, ins', c)"
    by (cases "open K config ins ?init")
  then have "advances ?init c" by (rule advances_open)
  then obtain es where "trace c = trace ?init @ es" unfolding advances_def by blast
  then have t: "trace c = EvReader # es" by (simp add: go_reader_def new_connection_def)
  show ?thesis using r t by (cases out) (simp_all add: Open_def)
qed

theorem Open_returns_connection_witness:
  "\<forall>K config.
     (\<exists>c es. fst (Open K (Some ''broken pipe'') config []) =
         Returned (Some c, Some (WriteError ''broken pipe'')) \<and> trace c = EvReader # es)
   \<and> (\<exists>c es. fst (Open K None (config\<lparr>SASL := [Authentication ''PLAIN'' ''guest'']\<rparr>)
              [Frame (methodFrame 0 (connectionStart 0 9 [] ''EXTERNAL''))]) =
         Returned (Some c, Some (Amqp (ErrSASL K))) \<and> trace c = EvReader # es)
   \<and> (\<exists>c es. fst (Open K None (config\<lparr>SASL := [Authentication ''PLAIN'' ''guest'']\<rparr>)
              [Frame (methodFrame 0 (connectionStart 0 9 [] ''PLAIN'')), ReadError ''EOF'']) =
         Returned (Some c, Some (Amqp (ErrCredentials K))) \<and> trace c = EvReader # es)
   \<and> (\<exists>c es. fst (Open K None (config\<lparr>SASL := [Authentication ''PLAIN'' ''guest'']\<rparr>)
              [Frame (methodFrame 0 (connectionStart 0 9 [] ''PLAIN'')),
               Frame (methodFrame 0 (connectionTune 0 0 0)), ReadError ''EOF'']) =
         Returned (Some c, Some (Amqp (ErrVhost K))) \<and> trace c = EvReader # es)"
proof (intro allI conjI)
  fix K config
  show "\<exists>c es. fst (Open K (Some ''broken pipe'') config []) =
         Returned (Some c, Some (WriteError ''broken pipe'')) \<and> trace c = EvReader # es"
    using Open_returns_connection [of K "Some ''broken pipe''" config "[]"]
    by (simp add: model_defs)
  show "\<exists>c es. fst (Open K None (config\<lparr>SASL := [Authentication ''PLAIN'' ''guest'']\<rparr>)
              [Frame (methodFrame 0 (connectionStart 0 9 [] ''EXTERNAL''))]) =
         Returned (Some c, Some (Amqp (ErrSASL K))) \<and> trace c = EvReader # es"
    using Open_returns_connection [of K None "config\<lparr>SASL := [Authentication ''PLAIN'' ''guest'']\<rparr>"
        "[Frame (methodFrame 0 (connectionStart 0 9 [] ''EXTERNAL''))]"]
    by (simp add: model_defs)
  show "\<exists>c es. fst (Open K None (config\<lparr>SASL := [Authentication ''PLAIN'' ''guest'']\<rparr>)
              [Frame (methodFrame 0 (connectionStart 0 9 [] ''PLAIN'')), ReadError ''EOF'']) =
         Returned (Some c, Some (Amqp (ErrCredentials K))) \<and> trace c = EvReader # es"
    using Open_returns_connection [of K None "config\<lparr>SASL := [Authentication ''PLAIN'' ''guest'']\<rparr>"
        "[Frame (methodFrame 0 (connectionStart 0 9 [] ''PLAIN'')), ReadError ''EOF'']"]
    by (simp add: model_defs)
  show "\<exists>c es. fst (Open K None (config\<lparr>SASL := [Authentication ''PLAIN'' ''guest'']\<rparr>)
              [Frame (methodFrame 0 (connectionStart 0 9 [] ''PLAIN'')),
               Frame (methodFrame 0 (connectionTune 0 0 0)), ReadError ''EOF'']) =
         Returned (Some c, Some (Amqp (ErrVhost K))) \<and> trace c = EvReader # es"
    using Open_returns_connection [of K None "config\<lparr>SASL := [Authentication ''PLAIN'' ''guest'']\<rparr>"
        "[Frame (methodFrame 0 (connectionStart 0 9 [] ''PLAIN'')),
               Frame (methodFrame 0 (connectionTune 0 0 0)), ReadError ''EOF'']"]
    by (simp add: model_defs)
qed

end
